theory Spec2Isabelle
  imports Main "HOL-Library.Char_ord" "HOL-Library.List_Lexorder" "HOL-Library.Multiset"
    "HOL-Library.Sublist"
begin

section \<open>Go strings and the standard-library functions the package calls\<close>

text \<open>
  A Go string is a sequence of bytes, here a \<^typ>\<open>string\<close> (a list of 8-bit characters).
  The order on characters is the order of their byte values and the order on strings is
  the lexicographic one, which is Go's \<open><\<close> on strings and the order of \<open>sort.Strings\<close>.

  The file \<open>pkg/services/ngalert/notifier/channels/template_data.go\<close> calls
  \<open>strings.HasPrefix\<close>, \<open>strings.HasSuffix\<close>, \<open>strings.Join\<close>, \<open>sort.Strings\<close>,
  \<open>path.Join\<close>, \<open>url.Parse\<close>, \<open>url.QueryEscape\<close> and \<open>(*url.URL).String\<close> of the Go
  standard library, and \<open>template.KV.Remove\<close> of the Alertmanager. They are not part of the
  repository; this section models them after the Go 1.16 sources of the packages
  \<open>strings\<close>, \<open>sort\<close>, \<open>path\<close> and \<open>net/url\<close>, function by function, under their Go names.

  Of \<open>url.Parse\<close> the general theorems below use only whether it fails or which URL it
  returns for the external URL at hand; of \<open>path.Join\<close> and \<open>(*url.URL).String\<close> that
  a path that is not empty gives a result that is not empty; of \<open>sort.Strings\<close> that it
  sorts. The examples use their values on \<open>https://example.com/\<close> and on a URL with a
  control character.
\<close>

subsection \<open>Package strings and sort\<close>

definition strings_HasPrefix :: "string \<Rightarrow> string \<Rightarrow> bool" where
  "strings_HasPrefix s p = (length p \<le> length s \<and> take (length p) s = p)"

definition strings_HasSuffix :: "string \<Rightarrow> string \<Rightarrow> bool" where
  "strings_HasSuffix s p = (length p \<le> length s \<and> drop (length s - length p) s = p)"

fun strings_Join :: "string list \<Rightarrow> string \<Rightarrow> string" where
  "strings_Join [] sep = []"
| "strings_Join [x] sep = x"
| "strings_Join (x # y # ys) sep = x @ sep @ strings_Join (y # ys) sep"

definition strings_IndexByte :: "string \<Rightarrow> char \<Rightarrow> nat option" where
  \<comment> \<open>the index of the first occurrence; Go's \<open>-1\<close> is \<open>None\<close>\<close>
  "strings_IndexByte s c =
     (if c \<in> set s then Some (length (takeWhile (\<lambda>x. x \<noteq> c) s)) else None)"

definition strings_LastIndexByte :: "string \<Rightarrow> char \<Rightarrow> nat option" where
  \<comment> \<open>the index of the last occurrence; Go's \<open>-1\<close> is \<open>None\<close>\<close>
  "strings_LastIndexByte s c =
     (if c \<in> set s then Some (length s - 1 - length (takeWhile (\<lambda>x. x \<noteq> c) (rev s)))
      else None)"

fun strings_Index :: "string \<Rightarrow> string \<Rightarrow> nat option" where
  "strings_Index [] sub = (if sub = [] then Some 0 else None)"
| "strings_Index (x # xs) sub =
     (if strings_HasPrefix (x # xs) sub then Some 0
      else map_option Suc (strings_Index xs sub))"

definition lower_byte :: "char \<Rightarrow> char" where
  "lower_byte c =
     (case map_of (zip ''ABCDEFGHIJKLMNOPQRSTUVWXYZ'' ''abcdefghijklmnopqrstuvwxyz'') c of
        Some l \<Rightarrow> l
      | None \<Rightarrow> c)"

definition strings_ToLower :: "string \<Rightarrow> string" where
  \<comment> \<open>\<open>strings.ToLower\<close> on ASCII input, the only input \<open>url.Parse\<close> gives it (a scheme)\<close>
  "strings_ToLower s = map lower_byte s"

definition sort_Strings :: "string list \<Rightarrow> string list" where
  "sort_Strings xs = sort xs"

subsection \<open>Package path\<close>

fun backtrack :: "nat \<Rightarrow> string \<Rightarrow> string" where
  \<comment> \<open>\<open>out.w--; for out.w > dotdot && out.index(out.w) != '/' { out.w-- }\<close>\<close>
  "backtrack dotdot out =
     (case rev out of
        [] \<Rightarrow> []
      | c # r \<Rightarrow>
          (if length r > dotdot \<and> c \<noteq> CHR ''/'' then backtrack dotdot (rev r) else rev r))"

function (sequential) clean_loop :: "bool \<Rightarrow> string \<Rightarrow> string \<Rightarrow> nat \<Rightarrow> string" where
  \<comment> \<open>the loop \<open>for r < n\<close> of \<open>path.Clean\<close>: the unread part of the path, the buffer
      \<open>out\<close> and the index \<open>dotdot\<close>\<close>
  "clean_loop rooted [] out dotdot = out"
| "clean_loop rooted (c # rest) out dotdot =
     (if c = CHR ''/'' then clean_loop rooted rest out dotdot
      else if c = CHR ''.'' \<and> (rest = [] \<or> hd rest = CHR ''/'') then
        clean_loop rooted rest out dotdot
      else if c = CHR ''.'' \<and> rest \<noteq> [] \<and> hd rest = CHR ''.''
              \<and> (tl rest = [] \<or> hd (tl rest) = CHR ''/'') then
        (if length out > dotdot then
           clean_loop rooted (tl rest) (backtrack dotdot out) dotdot
         else if \<not> rooted then
           (let out' = (if length out > 0 then out @ ''/'' else out) @ ''..''
            in clean_loop rooted (tl rest) out' (length out'))
         else clean_loop rooted (tl rest) out dotdot)
      else
        (let out' = (if rooted \<and> length out \<noteq> 1 \<or> \<not> rooted \<and> length out \<noteq> 0
                     then out @ ''/'' else out)
         in clean_loop rooted (dropWhile (\<lambda>x. x \<noteq> CHR ''/'') rest)
              (out' @ c # takeWhile (\<lambda>x. x \<noteq> CHR ''/'') rest) dotdot))"
  by pat_completeness auto
termination
  by (relation "measure (\<lambda>(rooted, p, out, dotdot). length p)")
     (auto simp: less_Suc_eq_le length_dropWhile_le intro: le_trans [OF length_dropWhile_le])

definition path_Clean :: "string \<Rightarrow> string" where
  "path_Clean p =
     (if p = [] then ''.''
      else
        (let rooted = (hd p = CHR ''/'');
             out = (if rooted then clean_loop True (tl p) ''/'' 1
                    else clean_loop False p [] 0)
         in if out = [] then ''.'' else out))"

definition path_Join :: "string list \<Rightarrow> string" where
  "path_Join elem =
     (if concat elem = [] then []
      else path_Clean
             (foldl (\<lambda>buf e. if buf \<noteq> [] \<or> e \<noteq> []
                              then (if buf \<noteq> [] then buf @ ''/'' else buf) @ e
                              else buf) [] elem))"

subsection \<open>Package net/url: escaping\<close>

datatype encoding =
  encodePath | encodePathSegment | encodeHost | encodeZone | encodeUserPassword
| encodeQueryComponent | encodeFragment

datatype url_err =
  InvalidControlCharacter  \<comment> \<open>\<open>net/url: invalid control character in URL\<close>\<close>
| MissingProtocolScheme    \<comment> \<open>\<open>missing protocol scheme\<close>\<close>
| FirstPathSegmentColon    \<comment> \<open>\<open>first path segment in URL cannot contain colon\<close>\<close>
| MissingBracketInHost     \<comment> \<open>\<open>missing ']' in host\<close>\<close>
| InvalidPort string       \<comment> \<open>\<open>invalid port %q after host\<close>\<close>
| InvalidUserinfo          \<comment> \<open>\<open>net/url: invalid userinfo\<close>\<close>
| EscapeError string       \<comment> \<open>\<open>invalid URL escape %q\<close>\<close>
| InvalidHostError string  \<comment> \<open>\<open>invalid character %q in host name\<close>\<close>

datatype url_Error = Error string string url_err
  \<comment> \<open>\<open>url.Error{Op, URL, Err}\<close>\<close>

definition isLetter :: "char \<Rightarrow> bool" where
  "isLetter c = (CHR ''a'' \<le> c \<and> c \<le> CHR ''z'' \<or> CHR ''A'' \<le> c \<and> c \<le> CHR ''Z'')"

definition isDigit :: "char \<Rightarrow> bool" where
  "isDigit c = (CHR ''0'' \<le> c \<and> c \<le> CHR ''9'')"

definition ishex :: "char \<Rightarrow> bool" where
  "ishex c = (CHR ''0'' \<le> c \<and> c \<le> CHR ''9'' \<or> CHR ''a'' \<le> c \<and> c \<le> CHR ''f''
              \<or> CHR ''A'' \<le> c \<and> c \<le> CHR ''F'')"

definition unhex :: "char \<Rightarrow> nat" where
  "unhex c =
     (if CHR ''0'' \<le> c \<and> c \<le> CHR ''9'' then of_char c - of_char CHR ''0''
      else if CHR ''a'' \<le> c \<and> c \<le> CHR ''f'' then of_char c - of_char CHR ''a'' + 10
      else if CHR ''A'' \<le> c \<and> c \<le> CHR ''F'' then of_char c - of_char CHR ''A'' + 10
      else 0)"

definition upperhex :: string where
  "upperhex = ''0123456789ABCDEF''"

definition shouldEscape :: "char \<Rightarrow> encoding \<Rightarrow> bool" where
  "shouldEscape c mode =
     (if isLetter c \<or> isDigit c then False
      else if (mode = encodeHost \<or> mode = encodeZone)
              \<and> c \<in> set (''!$&()*+,;=:[]<>'' @ [CHR 0x27, CHR 0x22]) then False
      else if c \<in> set ''-_.~'' then False
      else if c \<in> set ''$&+,/:;=?@'' \<and> mode = encodePath then c = CHR ''?''
      else if c \<in> set ''$&+,/:;=?@'' \<and> mode = encodePathSegment then
        c = CHR ''/'' \<or> c = CHR '';'' \<or> c = CHR '','' \<or> c = CHR ''?''
      else if c \<in> set ''$&+,/:;=?@'' \<and> mode = encodeUserPassword then
        c = CHR ''@'' \<or> c = CHR ''/'' \<or> c = CHR ''?'' \<or> c = CHR '':''
      else if c \<in> set ''$&+,/:;=?@'' \<and> mode = encodeQueryComponent then True
      else if c \<in> set ''$&+,/:;=?@'' \<and> mode = encodeFragment then False
      else if mode = encodeFragment \<and> c \<in> set ''!()*'' then False
      else True)"

definition escape_byte :: "encoding \<Rightarrow> char \<Rightarrow> string" where
  "escape_byte mode c =
     (if c = CHR '' '' \<and> mode = encodeQueryComponent then ''+''
      else if shouldEscape c mode then
        [CHR ''%'', upperhex ! (of_char c div 16), upperhex ! (of_char c mod 16)]
      else [c])"

definition escape :: "string \<Rightarrow> encoding \<Rightarrow> string" where
  "escape s mode = concat (map (escape_byte mode) s)"

definition url_QueryEscape :: "string \<Rightarrow> string" where
  "url_QueryEscape s = escape s encodeQueryComponent"

fun unescape :: "string \<Rightarrow> encoding \<Rightarrow> url_err + string" where
  \<comment> \<open>Go checks the whole string in a first loop and builds the result in a second one;
      the first malformed position decides the error, so one pass gives the same result\<close>
  "unescape [] mode = Inr []"
| "unescape (c # s) mode =
     (if c = CHR ''%'' then
        (case s of
           a # b # t \<Rightarrow>
             (let v = char_of (16 * unhex a + unhex b) in
              if \<not> ishex a \<or> \<not> ishex b then Inl (EscapeError [c, a, b])
              else if mode = encodeHost \<and> unhex a < 8 \<and> [c, a, b] \<noteq> ''%25'' then
                Inl (EscapeError [c, a, b])
              else if mode = encodeZone \<and> [c, a, b] \<noteq> ''%25'' \<and> v \<noteq> CHR '' ''
                      \<and> shouldEscape v encodeHost then
                Inl (EscapeError [c, a, b])
              else (case unescape t mode of Inl e \<Rightarrow> Inl e | Inr r \<Rightarrow> Inr (v # r)))
         | _ \<Rightarrow> Inl (EscapeError (c # s)))
      else if c = CHR ''+'' then
        (case unescape s mode of
           Inl e \<Rightarrow> Inl e
         | Inr r \<Rightarrow> Inr ((if mode = encodeQueryComponent then CHR '' '' else CHR ''+'') # r))
      else if (mode = encodeHost \<or> mode = encodeZone) \<and> c < CHR 0x80
              \<and> shouldEscape c encodeHost then
        Inl (InvalidHostError [c])
      else (case unescape s mode of Inl e \<Rightarrow> Inl e | Inr r \<Rightarrow> Inr (c # r)))"

definition validEncoded :: "string \<Rightarrow> encoding \<Rightarrow> bool" where
  "validEncoded s mode =
     list_all (\<lambda>c. c \<in> set (''!$&()*+,;=:@[]%'' @ [CHR 0x27]) \<or> \<not> shouldEscape c mode) s"

subsection \<open>Package net/url: the URL structure, Parse and String\<close>

datatype Userinfo = Userinfo string string bool
  \<comment> \<open>\<open>username\<close>, \<open>password\<close>, \<open>passwordSet\<close>\<close>

record URL =
  Scheme :: string
  Opaque :: string
  User :: "Userinfo option"
  Host :: string
  Path :: string
  RawPath :: string
  ForceQuery :: bool
  RawQuery :: string
  Fragment :: string
  RawFragment :: string

definition new_URL :: URL where
  \<comment> \<open>\<open>new(URL)\<close>: every field has its zero value\<close>
  "new_URL = \<lparr>Scheme = [], Opaque = [], User = None, Host = [], Path = [], RawPath = [],
              ForceQuery = False, RawQuery = [], Fragment = [], RawFragment = []\<rparr>"

definition split :: "string \<Rightarrow> char \<Rightarrow> bool \<Rightarrow> string \<times> string" where
  "split s sep cutc =
     (case strings_IndexByte s sep of
        None \<Rightarrow> (s, [])
      | Some i \<Rightarrow> if cutc then (take i s, drop (i + 1) s) else (take i s, drop i s))"

definition stringContainsCTLByte :: "string \<Rightarrow> bool" where
  "stringContainsCTLByte s = list_ex (\<lambda>b. b < CHR '' '' \<or> b = CHR 0x7F) s"

fun getScheme_loop :: "string \<Rightarrow> string \<Rightarrow> string \<Rightarrow> url_err + string \<times> string" where
  \<comment> \<open>the loop of \<open>getScheme\<close>: the whole string, the part before index \<open>i\<close> and the
      part from \<open>i\<close> on\<close>
  "getScheme_loop rawURL pre [] = Inr ([], rawURL)"
| "getScheme_loop rawURL pre (c # s) =
     (if isLetter c then getScheme_loop rawURL (pre @ [c]) s
      else if isDigit c \<or> c = CHR ''+'' \<or> c = CHR ''-'' \<or> c = CHR ''.'' then
        (if pre = [] then Inr ([], rawURL) else getScheme_loop rawURL (pre @ [c]) s)
      else if c = CHR '':'' then
        (if pre = [] then Inl MissingProtocolScheme else Inr (pre, s))
      else Inr ([], rawURL))"

definition getScheme :: "string \<Rightarrow> url_err + string \<times> string" where
  "getScheme rawURL = getScheme_loop rawURL [] rawURL"

definition validOptionalPort :: "string \<Rightarrow> bool" where
  "validOptionalPort port =
     (case port of
        [] \<Rightarrow> True
      | c # ds \<Rightarrow> c = CHR '':'' \<and> list_all (\<lambda>b. \<not> (b < CHR ''0'' \<or> b > CHR ''9'')) ds)"

definition validUserinfo :: "string \<Rightarrow> bool" where
  \<comment> \<open>Go ranges over the runes; every rune it accepts is one ASCII byte\<close>
  "validUserinfo s =
     list_all (\<lambda>r. isLetter r \<or> isDigit r \<or> r \<in> set (''-._:~!$&()*+,;=%@'' @ [CHR 0x27])) s"

definition parseHost :: "string \<Rightarrow> url_err + string" where
  "parseHost host =
     (if strings_HasPrefix host ''['' then
        (case strings_LastIndexByte host CHR '']'' of
           None \<Rightarrow> Inl MissingBracketInHost
         | Some i \<Rightarrow>
             (let colonPort = drop (i + 1) host in
              if \<not> validOptionalPort colonPort then Inl (InvalidPort colonPort)
              else
                (case strings_Index (take i host) ''%25'' of
                   Some zone \<Rightarrow>
                     (case unescape (take zone host) encodeHost of
                        Inl e \<Rightarrow> Inl e
                      | Inr host1 \<Rightarrow>
                          (case unescape (drop zone (take i host)) encodeZone of
                             Inl e \<Rightarrow> Inl e
                           | Inr host2 \<Rightarrow>
                               (case unescape (drop i host) encodeHost of
                                  Inl e \<Rightarrow> Inl e
                                | Inr host3 \<Rightarrow> Inr (host1 @ host2 @ host3))))
                 | None \<Rightarrow> unescape host encodeHost)))
      else
        (case strings_LastIndexByte host CHR '':'' of
           Some i \<Rightarrow>
             (let colonPort = drop i host in
              if \<not> validOptionalPort colonPort then Inl (InvalidPort colonPort)
              else unescape host encodeHost)
         | None \<Rightarrow> unescape host encodeHost))"

definition parseAuthority :: "string \<Rightarrow> url_err + Userinfo option \<times> string" where
  "parseAuthority authority =
     (case strings_LastIndexByte authority CHR ''@'' of
        None \<Rightarrow>
          (case parseHost authority of Inl e \<Rightarrow> Inl e | Inr host \<Rightarrow> Inr (None, host))
      | Some i \<Rightarrow>
          (case parseHost (drop (i + 1) authority) of
             Inl e \<Rightarrow> Inl e
           | Inr host \<Rightarrow>
               (let userinfo = take i authority in
                if \<not> validUserinfo userinfo then Inl InvalidUserinfo
                else if CHR '':'' \<notin> set userinfo then
                  (case unescape userinfo encodeUserPassword of
                     Inl e \<Rightarrow> Inl e
                   | Inr username \<Rightarrow> Inr (Some (Userinfo username [] False), host))
                else
                  (let (username, password) = split userinfo CHR '':'' True in
                   case unescape username encodeUserPassword of
                     Inl e \<Rightarrow> Inl e
                   | Inr username' \<Rightarrow>
                       (case unescape password encodeUserPassword of
                          Inl e \<Rightarrow> Inl e
                        | Inr password' \<Rightarrow>
                            Inr (Some (Userinfo username' password' True), host))))))"

definition setPath :: "URL \<Rightarrow> string \<Rightarrow> url_err + URL" where
  "setPath u p =
     (case unescape p encodePath of
        Inl e \<Rightarrow> Inl e
      | Inr path \<Rightarrow>
          Inr (u\<lparr>Path := path, RawPath := (if p = escape path encodePath then [] else p)\<rparr>))"

definition setFragment :: "URL \<Rightarrow> string \<Rightarrow> url_err + URL" where
  "setFragment u f =
     (case unescape f encodeFragment of
        Inl e \<Rightarrow> Inl e
      | Inr frag \<Rightarrow>
          Inr (u\<lparr>Fragment := frag,
                 RawFragment := (if f = escape frag encodeFragment then [] else f)\<rparr>))"

definition parse :: "string \<Rightarrow> url_err + URL" where
  \<comment> \<open>\<open>parse(rawURL, viaRequest)\<close> with \<open>viaRequest = false\<close>, as \<open>Parse\<close> calls it\<close>
  "parse rawURL =
     (if stringContainsCTLByte rawURL then Inl InvalidControlCharacter
      else if rawURL = ''*'' then Inr (new_URL\<lparr>Path := ''*''\<rparr>)
      else
        (case getScheme rawURL of
           Inl e \<Rightarrow> Inl e
         | Inr (scheme, rest0) \<Rightarrow>
             (let url0 = new_URL\<lparr>Scheme := strings_ToLower scheme\<rparr>;
                  (rest, url) =
                    (if strings_HasSuffix rest0 ''?'' \<and> count_list rest0 CHR ''?'' = 1 then
                       (butlast rest0, url0\<lparr>ForceQuery := True\<rparr>)
                     else
                       (let (r, q) = split rest0 CHR ''?'' True in (r, url0\<lparr>RawQuery := q\<rparr>)))
              in
              if \<not> strings_HasPrefix rest ''/'' \<and> Scheme url \<noteq> [] then
                Inr (url\<lparr>Opaque := rest\<rparr>)
              else if \<not> strings_HasPrefix rest ''/''
                      \<and> (case strings_IndexByte rest CHR '':'' of
                            None \<Rightarrow> False
                          | Some colon \<Rightarrow>
                              (case strings_IndexByte rest CHR ''/'' of
                                 None \<Rightarrow> True
                               | Some slash \<Rightarrow> colon < slash)) then
                Inl FirstPathSegmentColon
              else if (Scheme url \<noteq> [] \<or> \<not> strings_HasPrefix rest ''///'')
                      \<and> strings_HasPrefix rest ''//'' then
                (let (authority, rest') = split (drop 2 rest) CHR ''/'' False in
                 case parseAuthority authority of
                   Inl e \<Rightarrow> Inl e
                 | Inr (user, host) \<Rightarrow> setPath (url\<lparr>User := user, Host := host\<rparr>) rest')
              else setPath url rest)))"

definition url_Parse :: "string \<Rightarrow> url_Error + URL" where
  "url_Parse rawURL =
     (let (u, frag) = split rawURL CHR ''#'' True in
      case parse u of
        Inl e \<Rightarrow> Inl (Error ''parse'' u e)
      | Inr url \<Rightarrow>
          if frag = [] then Inr url
          else (case setFragment url frag of
                  Inl e \<Rightarrow> Inl (Error ''parse'' rawURL e)
                | Inr url' \<Rightarrow> Inr url'))"

definition Userinfo_String :: "Userinfo \<Rightarrow> string" where
  "Userinfo_String ui =
     (case ui of Userinfo username password passwordSet \<Rightarrow>
        escape username encodeUserPassword
        @ (if passwordSet then '':'' @ escape password encodeUserPassword else []))"

definition EscapedPath :: "URL \<Rightarrow> string" where
  "EscapedPath u =
     (if RawPath u \<noteq> [] \<and> validEncoded (RawPath u) encodePath
         \<and> unescape (RawPath u) encodePath = Inr (Path u) then RawPath u
      else if Path u = ''*'' then ''*''
      else escape (Path u) encodePath)"

definition EscapedFragment :: "URL \<Rightarrow> string" where
  "EscapedFragment u =
     (if RawFragment u \<noteq> [] \<and> validEncoded (RawFragment u) encodeFragment
         \<and> unescape (RawFragment u) encodeFragment = Inr (Fragment u) then RawFragment u
      else escape (Fragment u) encodeFragment)"

definition url_String :: "URL \<Rightarrow> string" where
  \<comment> \<open>\<open>(u *URL) String()\<close>: the buffer after each block of writes\<close>
  "url_String u =
     (let buf1 = (if Scheme u \<noteq> [] then Scheme u @ '':'' else []);
          buf2 =
            (if Opaque u \<noteq> [] then buf1 @ Opaque u
             else
               (let buf3 =
                      (if Scheme u \<noteq> [] \<or> Host u \<noteq> [] \<or> User u \<noteq> None then
                         buf1
                         @ (if Host u \<noteq> [] \<or> Path u \<noteq> [] \<or> User u \<noteq> None then ''//'' else [])
                         @ (case User u of None \<Rightarrow> [] | Some ui \<Rightarrow> Userinfo_String ui @ ''@'')
                         @ (if Host u \<noteq> [] then escape (Host u) encodeHost else [])
                       else buf1);
                    path = EscapedPath u;
                    buf4 = (if path \<noteq> [] \<and> hd path \<noteq> CHR ''/'' \<and> Host u \<noteq> []
                            then buf3 @ ''/'' else buf3);
                    buf5 =
                      (if buf4 = [] then
                         (case strings_IndexByte path CHR '':'' of
                            Some i \<Rightarrow>
                              (if strings_IndexByte (take i path) CHR ''/'' = None
                               then buf4 @ ''./'' else buf4)
                          | None \<Rightarrow> buf4)
                       else buf4)
                in buf5 @ path));
          buf6 = (if ForceQuery u \<or> RawQuery u \<noteq> [] then buf2 @ ''?'' @ RawQuery u else buf2)
      in if Fragment u \<noteq> [] then buf6 @ ''#'' @ EscapedFragment u else buf6)"

section \<open>The Alertmanager's template data\<close>

text \<open>
  The types \<open>template.KV\<close>, \<open>template.Alert\<close> and \<open>template.Data\<close> of the Alertmanager.
  A \<open>KV\<close> is a Go \<open>map[string]string\<close>: here an association list with one entry per key,
  whose order stands for the order in which one \<open>range\<close> over the map visits the entries
  (Go leaves that order open). \<open>kv[key]\<close> is the value of the key, or the empty string.
  A slice is \<open>nil\<close> or a sequence; \<open>time.Time\<close> is only copied.
\<close>

type_synonym KV = "(string \<times> string) list"

definition KV_index :: "KV \<Rightarrow> string \<Rightarrow> string" where
  \<comment> \<open>\<open>kv[key]\<close>\<close>
  "KV_index kv key = (case map_of kv key of None \<Rightarrow> [] | Some v \<Rightarrow> v)"

definition KV_Remove :: "KV \<Rightarrow> string list \<Rightarrow> KV" where
  \<comment> \<open>\<open>Remove returns a copy of the key/value set without the given keys.\<close>\<close>
  "KV_Remove kv keys = filter (\<lambda>(k, v). k \<notin> set keys) kv"

datatype 'a slice = nil_slice | Slice "'a list"

fun elems :: "'a slice \<Rightarrow> 'a list" where
  "elems nil_slice = []"
| "elems (Slice xs) = xs"

definition append_slice :: "'a slice \<Rightarrow> 'a \<Rightarrow> 'a slice" where
  \<comment> \<open>\<open>append(s, x)\<close>\<close>
  "append_slice s x = Slice (elems s @ [x])"

type_synonym time_Time = int

record Alert =
  Status :: string
  Labels :: KV
  Annotations :: KV
  StartsAt :: time_Time
  EndsAt :: time_Time
  GeneratorURL :: string
  Fingerprint :: string

section \<open>pkg/services/ngalert/notifier/channels/template_data.go\<close>

text \<open>
  \<open>ExtendedAlert\<close> has the fields of \<open>template.Alert\<close> and three more, so it is the record
  \<open>Alert\<close> extended. \<open>template.Data\<close> and \<open>ExtendedData\<close> have the same fields and differ in
  the type of the alerts: one record, with the alert type as a parameter. Its field
  \<open>Status\<close> is written \<open>Status'\<close>, as \<open>Status\<close> is the alert's. The functions take the
  values their pointer arguments (\<open>data\<close>, \<open>tmpl\<close>, \<open>tmplErr\<close>) point to.
\<close>

record ExtendedAlert = Alert +
  SilenceURL :: string
  DashboardURL :: string
  PanelURL :: string

record 'alert Data =
  Receiver :: string
  Status' :: string
  Alerts :: "'alert slice"
  GroupLabels :: KV
  CommonLabels :: KV
  CommonAnnotations :: KV
  ExternalURL :: string

type_synonym ExtendedData = "ExtendedAlert Data"

datatype error = FailedToParseExternalURL url_Error
  \<comment> \<open>\<open>fmt.Errorf("failed to parse external URL: %w", err)\<close>, the specification's
      \<open>InvalidConfigURL\<close>\<close>

definition removePrivateItems :: "KV \<Rightarrow> KV" where
  \<comment> \<open>the \<open>range\<close> visits the keys of the map it was given; \<open>kv\<close> is replaced by a copy
      without the key at each private key\<close>
  "removePrivateItems kv =
     fold (\<lambda>key kv'. if strings_HasPrefix key ''__'' \<and> strings_HasSuffix key ''__''
                       then KV_Remove kv' [key] else kv')
          (map fst kv) kv"

definition matchers_of :: "KV \<Rightarrow> string list" where
  \<comment> \<open>\<open>matchers := make([]string, 0); for key, value := range alert.Labels { ... }\<close>\<close>
  "matchers_of labels =
     foldl (\<lambda>matchers (key, value).
              if \<not> (strings_HasPrefix key ''__'' \<and> strings_HasSuffix key ''__'')
              then matchers @ [key @ ''='' @ value] else matchers)
           [] labels"

definition extendAlert :: "Alert \<Rightarrow> string \<Rightarrow> error + ExtendedAlert" where
  "extendAlert alert externalURL =
     (let extended =
            \<lparr>Status = Status alert, Labels = Labels alert, Annotations = Annotations alert,
             StartsAt = StartsAt alert, EndsAt = EndsAt alert,
             GeneratorURL = GeneratorURL alert, Fingerprint = Fingerprint alert,
             SilenceURL = [], DashboardURL = [], PanelURL = []\<rparr>;
          filled =
            (if length externalURL > 0 then
               (case url_Parse externalURL of
                  Inl err \<Rightarrow> Inl (FailedToParseExternalURL err)
                | Inr u \<Rightarrow>
                    (let externalPath = Path u;
                         dashboardUid = KV_index (Annotations alert) ''__dashboardUid__'';
                         (u1, extended1) =
                           (if length dashboardUid > 0 then
                              (let ud = u\<lparr>Path := path_Join [externalPath, ''/d/'', dashboardUid]\<rparr>;
                                   extd = extended\<lparr>DashboardURL := url_String ud\<rparr>;
                                   panelId = KV_index (Annotations alert) ''__panelId__''
                               in if length panelId > 0 then
                                    (let up = ud\<lparr>RawQuery := ''viewPanel='' @ panelId\<rparr>
                                     in (up, extd\<lparr>PanelURL := url_String up\<rparr>))
                                  else (ud, extd))
                            else (u, extended));
                         matchers = sort_Strings (matchers_of (Labels alert));
                         u2 = u1\<lparr>Path := path_Join [externalPath, ''/alerting/silence/new''],
                                 RawQuery := ''alertmanager=grafana&matchers=''
                                             @ url_QueryEscape (strings_Join matchers '','')\<rparr>
                     in Inr (extended1\<lparr>SilenceURL := url_String u2\<rparr>)))
             else Inr extended)
      in case filled of
           Inl err \<Rightarrow> Inl err
         | Inr e \<Rightarrow>
             Inr (e\<lparr>Annotations := removePrivateItems (Annotations e),
                    Labels := removePrivateItems (Labels e)\<rparr>))"

fun extend_loop :: "string \<Rightarrow> Alert list \<Rightarrow> ExtendedAlert slice \<Rightarrow> error + ExtendedAlert slice" where
  \<comment> \<open>\<open>for _, alert := range data.Alerts\<close>, with the slice \<open>alerts\<close> built so far\<close>
  "extend_loop externalURL [] alerts = Inr alerts"
| "extend_loop externalURL (alert # rest) alerts =
     (case extendAlert alert externalURL of
        Inl err \<Rightarrow> Inl err
      | Inr extendedAlert \<Rightarrow> extend_loop externalURL rest (append_slice alerts extendedAlert))"

definition ExtendData :: "Alert Data \<Rightarrow> error + ExtendedData" where
  "ExtendData data =
     (case extend_loop (ExternalURL data) (elems (Alerts data)) (Slice []) of
        Inl err \<Rightarrow> Inl err
      | Inr alerts \<Rightarrow>
          Inr \<lparr>Receiver = Receiver data, Status' = Status' data, Alerts = alerts,
               GroupLabels = GroupLabels data,
               CommonLabels = removePrivateItems (CommonLabels data),
               CommonAnnotations = removePrivateItems (CommonAnnotations data),
               ExternalURL = ExternalURL data\<rparr>)"

text \<open>
  \<open>TmplText\<close>: the data \<open>notify.GetTemplateData\<close> returns and the template's method
  \<open>ExecuteTextString\<close> belong to the Alertmanager and are parameters. The closure reads and
  writes \<open>*tmplErr\<close>: it takes the content of that variable and returns the new content
  with its result.
\<close>

type_synonym 'e ExecuteTextString = "string \<Rightarrow> ExtendedData \<Rightarrow> string \<times> 'e option"

type_synonym 'e closure = "string \<Rightarrow> 'e option \<Rightarrow> string \<times> 'e option"

definition TmplText ::
  "'e ExecuteTextString \<Rightarrow> Alert Data \<Rightarrow> error + 'e closure \<times> ExtendedData" where
  "TmplText tmpl promTmplData =
     (case ExtendData promTmplData of
        Inl err \<Rightarrow> Inl err
      | Inr data \<Rightarrow>
          Inr (\<lambda>name tmplErr. if tmplErr \<noteq> None then ([], tmplErr) else tmpl name data,
               data))"

text \<open>
  \<open>Firing\<close> and \<open>Resolved\<close> read a slice and build another one with \<open>append\<close>; whether they
  write to the slice they were given is a matter of which backing array \<open>append\<close> writes
  to. So these two methods are modelled on a store of backing arrays. A slice is its
  header, as in Go's runtime: the address of the backing array (0 for a \<open>nil\<close> slice), the
  length and the capacity. The store holds the array at each address and the next free
  address. \<open>[]ExtendedAlert{}\<close> is a slice of length and capacity 0 at a fresh address.
  \<open>append\<close> writes in place when the length is below the capacity, and otherwise copies
  the elements to a new array, whose capacity the runtime chooses: the parameter \<open>grow\<close>
  is that choice, and the new capacity is never less than the room the new element needs.
  The two methods are the same loop with another status: \<open>string(model.AlertFiring)\<close> is
  \<open>firing\<close>, \<open>string(model.AlertResolved)\<close> is \<open>resolved\<close>. The \<open>range\<close> reads the header
  once, and the element at each index when it gets there.
\<close>

definition zero_ExtendedAlert :: ExtendedAlert where
  "zero_ExtendedAlert =
     \<lparr>Status = [], Labels = [], Annotations = [], StartsAt = 0, EndsAt = 0,
      GeneratorURL = [], Fingerprint = [], SilenceURL = [], DashboardURL = [], PanelURL = []\<rparr>"

record store =
  arrays :: "nat \<Rightarrow> ExtendedAlert list"
  brk :: nat

record slice_hdr =
  array :: nat
  len :: nat
  cap :: nat

definition valid :: "store \<Rightarrow> slice_hdr \<Rightarrow> bool" where
  "valid st s =
     (0 < brk st \<and> array s < brk st \<and> len s \<le> length (arrays st (array s))
      \<and> (array s = 0 \<longrightarrow> len s = 0))"

definition view :: "store \<Rightarrow> slice_hdr \<Rightarrow> ExtendedAlert slice" where
  "view st s =
     (if array s = 0 then nil_slice else Slice (take (len s) (arrays st (array s))))"

definition alloc :: "store \<Rightarrow> ExtendedAlert list \<Rightarrow> store \<times> nat" where
  "alloc st cells =
     (st\<lparr>arrays := (arrays st)(brk st := cells), brk := Suc (brk st)\<rparr>, brk st)"

definition empty_literal :: "store \<Rightarrow> store \<times> slice_hdr" where
  "empty_literal st = (let (st', a) = alloc st [] in (st', \<lparr>array = a, len = 0, cap = 0\<rparr>))"

definition append_store ::
  "(nat \<Rightarrow> nat) \<Rightarrow> store \<Rightarrow> slice_hdr \<Rightarrow> ExtendedAlert \<Rightarrow> store \<times> slice_hdr" where
  "append_store grow st s x =
     (if len s < cap s then
        (st\<lparr>arrays := (arrays st)(array s := (arrays st (array s))[len s := x])\<rparr>,
         s\<lparr>len := len s + 1\<rparr>)
      else
        (let newcap = max (grow (cap s)) (len s + 1);
             (st', a) = alloc st (take (len s) (arrays st (array s)) @ x
                                  # replicate (newcap - (len s + 1)) zero_ExtendedAlert)
         in (st', \<lparr>array = a, len = len s + 1, cap = newcap\<rparr>)))"

fun status_loop ::
  "string \<Rightarrow> (nat \<Rightarrow> nat) \<Rightarrow> slice_hdr \<Rightarrow> nat list \<Rightarrow> store \<Rightarrow> slice_hdr \<Rightarrow> store \<times> slice_hdr" where
  "status_loop status grow as [] st res = (st, res)"
| "status_loop status grow as (i # rest) st res =
     (let a = arrays st (array as) ! i in
      if Status a = status then
        (let (st', res') = append_store grow st res a in status_loop status grow as rest st' res')
      else status_loop status grow as rest st res)"

definition Firing :: "(nat \<Rightarrow> nat) \<Rightarrow> store \<Rightarrow> slice_hdr \<Rightarrow> store \<times> slice_hdr" where
  "Firing grow st as =
     (let (st0, res) = empty_literal st in status_loop ''firing'' grow as [0..<len as] st0 res)"

definition Resolved :: "(nat \<Rightarrow> nat) \<Rightarrow> store \<Rightarrow> slice_hdr \<Rightarrow> store \<times> slice_hdr" where
  "Resolved grow st as =
     (let (st0, res) = empty_literal st in status_loop ''resolved'' grow as [0..<len as] st0 res)"

definition owned :: "nat \<Rightarrow> store \<Rightarrow> slice_hdr \<Rightarrow> bool" where
  \<comment> \<open>the slice's backing array was allocated at or after address \<open>n\<close>\<close>
  "owned n st s =
     (n \<le> array s \<and> array s < brk st \<and> len s \<le> cap s
      \<and> cap s \<le> length (arrays st (array s)))"

text \<open>
  A caller renders several templates one after the other with the same closure and the
  same \<open>tmplErr\<close>, and reads \<open>tmplErr\<close> at the end: \<open>call_all\<close> is that sequence of
  calls, with the strings returned and the final content of \<open>tmplErr\<close>.
\<close>

fun call_all :: "'e closure \<Rightarrow> string list \<Rightarrow> 'e option \<Rightarrow> string list \<times> 'e option" where
  "call_all renderFn [] tmplErr = ([], tmplErr)"
| "call_all renderFn (name # names) tmplErr =
     (let (s, tmplErr') = renderFn name tmplErr;
          (ss, tmplErr'') = call_all renderFn names tmplErr'
      in (s # ss, tmplErr''))"

section \<open>The specification's examples\<close>

definition example_alert :: Alert where
  \<comment> \<open>the alert of the specification's example, the dashboard uid among the labels\<close>
  "example_alert =
     \<lparr>Status = ''firing'',
      Labels = [(''alertname'', ''Test''), (''__dashboardUid__'', ''abc''), (''severity'', ''high'')],
      Annotations = [(''__panelId__'', ''7'')],
      StartsAt = 0, EndsAt = 0, GeneratorURL = [], Fingerprint = []\<rparr>"

definition annotated_alert :: Alert where
  \<comment> \<open>the same alert with the dashboard uid among the annotations, where the code reads
      it, and the labels in another order\<close>
  "annotated_alert =
     \<lparr>Status = ''firing'',
      Labels = [(''severity'', ''high''), (''alertname'', ''Test'')],
      Annotations = [(''__dashboardUid__'', ''abc''), (''__panelId__'', ''7'')],
      StartsAt = 0, EndsAt = 0, GeneratorURL = [], Fingerprint = []\<rparr>"

definition example_extended :: ExtendedAlert where
  "example_extended =
     \<lparr>Status = ''firing'',
      Labels = [(''alertname'', ''Test''), (''severity'', ''high'')],
      Annotations = [], StartsAt = 0, EndsAt = 0, GeneratorURL = [], Fingerprint = [],
      SilenceURL = ''https://example.com/alerting/silence/new?alertmanager=grafana&matchers=alertname%3DTest%2Cseverity%3Dhigh'',
      DashboardURL = [], PanelURL = []\<rparr>"

definition annotated_extended :: ExtendedAlert where
  "annotated_extended =
     \<lparr>Status = ''firing'',
      Labels = [(''severity'', ''high''), (''alertname'', ''Test'')],
      Annotations = [], StartsAt = 0, EndsAt = 0, GeneratorURL = [], Fingerprint = [],
      SilenceURL = ''https://example.com/alerting/silence/new?alertmanager=grafana&matchers=alertname%3DTest%2Cseverity%3Dhigh'',
      DashboardURL = ''https://example.com/d/abc'',
      PanelURL = ''https://example.com/d/abc?viewPanel=7''\<rparr>"

definition example_URL :: string where
  "example_URL = ''https://example.com/''"

definition malformed_URL :: string where
  \<comment> \<open>an external URL with a control character (DEL)\<close>
  "malformed_URL = ''https://example.com/'' @ [CHR 0x7F]"

definition example_group :: "string \<Rightarrow> Alert list \<Rightarrow> Alert Data" where
  "example_group externalURL alerts =
     \<lparr>Receiver = ''email'', Status' = ''firing'', Alerts = Slice alerts,
      GroupLabels = [(''alertname'', ''Test'')],
      CommonLabels = [(''__alert_rule_uid__'', ''u1''), (''alertname'', ''Test'')],
      CommonAnnotations = [(''__dashboardUid__'', ''abc''), (''summary'', ''s'')],
      ExternalURL = externalURL\<rparr>"

definition example_extended_group :: "string \<Rightarrow> ExtendedAlert list \<Rightarrow> ExtendedData" where
  "example_extended_group externalURL alerts =
     \<lparr>Receiver = ''email'', Status' = ''firing'', Alerts = Slice alerts,
      GroupLabels = [(''alertname'', ''Test'')],
      CommonLabels = [(''alertname'', ''Test'')],
      CommonAnnotations = [(''summary'', ''s'')],
      ExternalURL = externalURL\<rparr>"

definition example_tmpl :: "string ExecuteTextString" where
  "example_tmpl name data =
     (if name = ''missing'' then ([], Some ''template: not defined'')
      else if name = ''broken'' then (''partial'', Some ''template: execution failed'')
      else (name @ '' for '' @ Receiver data, None))"

definition resolved_extended :: ExtendedAlert where
  "resolved_extended = example_extended\<lparr>Status := ''resolved''\<rparr>"

definition example_store :: store where
  "example_store =
     \<lparr>arrays = (\<lambda>a. [])(1 := [example_extended, resolved_extended, annotated_extended]),
      brk = 2\<rparr>"

definition example_alerts :: slice_hdr where
  "example_alerts = \<lparr>array = 1, len = 3, cap = 3\<rparr>"

definition firing_alerts :: slice_hdr where
  \<comment> \<open>the first of these alerts only\<close>
  "firing_alerts = \<lparr>array = 1, len = 1, cap = 3\<rparr>"


section \<open>Facts about the library functions\<close>

lemmas go_defs =
  strings_HasPrefix_def strings_HasSuffix_def strings_IndexByte_def
  strings_LastIndexByte_def lower_byte_def strings_ToLower_def sort_Strings_def
  path_Clean_def path_Join_def
  isLetter_def isDigit_def ishex_def unhex_def upperhex_def
  shouldEscape_def escape_byte_def escape_def url_QueryEscape_def validEncoded_def
  new_URL_def split_def stringContainsCTLByte_def getScheme_def
  validOptionalPort_def validUserinfo_def parseHost_def parseAuthority_def setPath_def
  setFragment_def parse_def url_Parse_def Userinfo_String_def EscapedPath_def
  EscapedFragment_def url_String_def
  KV_index_def KV_Remove_def append_slice_def

lemma strings_HasPrefix_iff: "strings_HasPrefix s p \<longleftrightarrow> prefix p s"
proof
  assume "strings_HasPrefix s p"
  then have "s = p @ drop (length p) s"
    by (metis strings_HasPrefix_def append_take_drop_id)
  then show "prefix p s" by (metis prefixI)
next
  assume "prefix p s"
  then obtain zs where "s = p @ zs" by (auto simp: prefix_def)
  then show "strings_HasPrefix s p" by (simp add: strings_HasPrefix_def)
qed

lemma strings_HasSuffix_iff: "strings_HasSuffix s p \<longleftrightarrow> suffix p s"
proof
  assume "strings_HasSuffix s p"
  then have "s = take (length s - length p) s @ p"
    by (metis strings_HasSuffix_def append_take_drop_id)
  then show "suffix p s" by (metis suffixI)
next
  assume "suffix p s"
  then obtain zs where "s = zs @ p" by (auto simp: suffix_def)
  then show "strings_HasSuffix s p" by (simp add: strings_HasSuffix_def)
qed

lemma url_Parse_empty: "url_Parse [] = Inr new_URL"
  by (simp add: go_defs)

lemma url_Parse_example:
  "url_Parse example_URL
     = Inr (new_URL\<lparr>Scheme := ''https'', Host := ''example.com'', Path := ''/''\<rparr>)"
  by (simp add: example_URL_def go_defs)

lemma url_Parse_malformed:
  "url_Parse malformed_URL = Inl (Error ''parse'' malformed_URL InvalidControlCharacter)"
  by (simp add: malformed_URL_def go_defs)

lemma escape_byte_nonempty: "escape_byte mode c \<noteq> []"
  by (simp add: escape_byte_def)

lemma escape_nonempty: "s \<noteq> [] \<Longrightarrow> escape s mode \<noteq> []"
  by (cases s) (simp_all add: escape_def escape_byte_nonempty)

lemma EscapedPath_nonempty: "Path u \<noteq> [] \<Longrightarrow> EscapedPath u \<noteq> []"
  by (simp add: EscapedPath_def escape_nonempty)

lemma url_String_nonempty:
  assumes "Path u \<noteq> []"
  shows "url_String u \<noteq> []"
proof (cases "Opaque u = []")
  case True
  with EscapedPath_nonempty [OF assms] show ?thesis
    by (simp add: url_String_def Let_def)
next
  case False
  then show ?thesis
    by (simp add: url_String_def Let_def)
qed

lemma path_Clean_nonempty: "path_Clean p \<noteq> []"
  by (simp add: path_Clean_def Let_def)

lemma path_Join_nonempty: "concat elem \<noteq> [] \<Longrightarrow> path_Join elem \<noteq> []"
  by (simp add: path_Join_def path_Clean_nonempty)

section \<open>Removing the private items\<close>

lemma fold_Remove:
  "fold (\<lambda>key kv'. if P key then KV_Remove kv' [key] else kv') keys kv
     = filter (\<lambda>(k, v). \<not> (P k \<and> k \<in> set keys)) kv"
proof (induction keys arbitrary: kv)
  case Nil
  then show ?case by simp
next
  case (Cons key keys)
  show ?case
    by (simp add: Cons.IH KV_Remove_def) (auto intro!: filter_cong)
qed

lemma removePrivateItems_filter:
  "removePrivateItems kv = filter (\<lambda>(k, v). \<not> (prefix ''__'' k \<and> suffix ''__'' k)) kv"
  unfolding removePrivateItems_def fold_Remove strings_HasPrefix_iff strings_HasSuffix_iff
  by (rule filter_cong) force+

lemma map_of_filter_key:
  "map_of (filter (\<lambda>(k, v). P k) kv) key = (if P key then map_of kv key else None)"
  by (induction kv) auto

lemma map_of_removePrivateItems:
  "map_of (removePrivateItems kv) key
     = (if prefix ''__'' key \<and> suffix ''__'' key then None else map_of kv key)"
  using map_of_filter_key [of "\<lambda>k. \<not> (prefix ''__'' k \<and> suffix ''__'' k)" kv key]
  by (simp add: removePrivateItems_filter)

section \<open>The alert extender, case by case\<close>

lemma extendAlert_empty:
  "extendAlert alert [] =
     Inr \<lparr>Status = Status alert, Labels = removePrivateItems (Labels alert),
          Annotations = removePrivateItems (Annotations alert),
          StartsAt = StartsAt alert, EndsAt = EndsAt alert,
          GeneratorURL = GeneratorURL alert, Fingerprint = Fingerprint alert,
          SilenceURL = [], DashboardURL = [], PanelURL = []\<rparr>"
  by (simp add: extendAlert_def)

lemma extendAlert_error:
  "externalURL \<noteq> [] \<Longrightarrow> url_Parse externalURL = Inl err \<Longrightarrow>
     extendAlert alert externalURL = Inl (FailedToParseExternalURL err)"
  by (simp add: extendAlert_def)

lemma extendAlert_parsed:
  assumes "externalURL \<noteq> []" and "url_Parse externalURL = Inr u"
  shows "extendAlert alert externalURL =
     Inr \<lparr>Status = Status alert, Labels = removePrivateItems (Labels alert),
          Annotations = removePrivateItems (Annotations alert),
          StartsAt = StartsAt alert, EndsAt = EndsAt alert,
          GeneratorURL = GeneratorURL alert, Fingerprint = Fingerprint alert,
          SilenceURL =
            url_String (u\<lparr>Path := path_Join [Path u, ''/alerting/silence/new''],
                          RawQuery := ''alertmanager=grafana&matchers=''
                            @ url_QueryEscape
                                (strings_Join (sort_Strings (matchers_of (Labels alert))) '','')\<rparr>),
          DashboardURL =
            (if KV_index (Annotations alert) ''__dashboardUid__'' \<noteq> [] then
               url_String (u\<lparr>Path := path_Join [Path u, ''/d/'',
                                      KV_index (Annotations alert) ''__dashboardUid__'']\<rparr>)
             else []),
          PanelURL =
            (if KV_index (Annotations alert) ''__dashboardUid__'' \<noteq> []
                \<and> KV_index (Annotations alert) ''__panelId__'' \<noteq> [] then
               url_String (u\<lparr>Path := path_Join [Path u, ''/d/'',
                                      KV_index (Annotations alert) ''__dashboardUid__''],
                             RawQuery := ''viewPanel='' @ KV_index (Annotations alert) ''__panelId__''\<rparr>)
             else [])\<rparr>"
  using assms by (simp add: extendAlert_def Let_def)

lemma extendAlert_Labels:
  "extendAlert alert externalURL = Inr e \<Longrightarrow> Labels e = removePrivateItems (Labels alert)"
  by (cases "externalURL = []"; cases "url_Parse externalURL")
     (auto simp: extendAlert_empty extendAlert_error extendAlert_parsed)

lemma extendAlert_Annotations:
  "extendAlert alert externalURL = Inr e \<Longrightarrow>
     Annotations e = removePrivateItems (Annotations alert)"
  by (cases "externalURL = []"; cases "url_Parse externalURL")
     (auto simp: extendAlert_empty extendAlert_error extendAlert_parsed)

lemma ExtendData_common:
  "ExtendData data = Inr d \<Longrightarrow>
     CommonLabels d = removePrivateItems (CommonLabels data)
     \<and> CommonAnnotations d = removePrivateItems (CommonAnnotations data)"
  by (auto simp: ExtendData_def split: sum.splits)

lemma extendAlert_PanelURL:
  assumes "extendAlert alert externalURL = Inr e" and "PanelURL e \<noteq> []"
  shows "externalURL \<noteq> [] \<and> KV_index (Annotations alert) ''__dashboardUid__'' \<noteq> []"
  using assms
  by (cases "externalURL = []"; cases "url_Parse externalURL")
     (auto simp: extendAlert_empty extendAlert_error extendAlert_parsed split: if_splits)

section \<open>The matchers of the silence URL\<close>

lemma foldl_matchers:
  "foldl (\<lambda>matchers (key, value).
            if \<not> P key then matchers @ [key @ ''='' @ value] else matchers) acc labels
     = acc @ map (\<lambda>(key, value). key @ ''='' @ value)
               (filter (\<lambda>(key, value). \<not> P key) labels)"
  by (induction labels arbitrary: acc) auto

lemma matchers_of_filter:
  "matchers_of labels
     = map (\<lambda>(key, value). key @ ''='' @ value)
         (filter (\<lambda>(key, value). \<not> (prefix ''__'' key \<and> suffix ''__'' key)) labels)"
  unfolding matchers_of_def
  using foldl_matchers
    [of "\<lambda>key. strings_HasPrefix key ''__'' \<and> strings_HasSuffix key ''__''" "[]" labels]
  by (simp add: strings_HasPrefix_iff strings_HasSuffix_iff)

lemma distinct_keys_filter:
  assumes "distinct (map fst labels)"
  shows "mset (map fst (filter (\<lambda>(key, value). Q key) labels))
           = mset_set {key \<in> dom (map_of labels). Q key}"
proof -
  have "distinct (map fst (filter (\<lambda>(key, value). Q key) labels))"
    using assms by (rule distinct_map_filter)
  then have "mset (map fst (filter (\<lambda>(key, value). Q key) labels))
      = mset_set (set (map fst (filter (\<lambda>(key, value). Q key) labels)))"
    by (rule mset_set_set [symmetric])
  also have "set (map fst (filter (\<lambda>(key, value). Q key) labels))
      = {key \<in> dom (map_of labels). Q key}"
    by (force simp: dom_map_of_conv_image_fst)
  finally show ?thesis .
qed

lemma mset_matchers_of:
  assumes "distinct (map fst labels)"
  shows "mset (matchers_of labels)
     = image_mset (\<lambda>key. key @ ''='' @ the (map_of labels key))
         (mset_set {key \<in> dom (map_of labels). \<not> (prefix ''__'' key \<and> suffix ''__'' key)})"
proof -
  let ?Q = "\<lambda>key. \<not> (prefix ''__'' key \<and> suffix ''__'' key)"
  let ?kept = "filter (\<lambda>(key, value). ?Q key) labels"
  have "map (\<lambda>(key, value). key @ ''='' @ value) ?kept
      = map (\<lambda>key. key @ ''='' @ the (map_of labels key)) (map fst ?kept)"
    using assms by (auto simp: map_of_eq_Some_iff [THEN iffD2])
  then have "mset (matchers_of labels)
      = image_mset (\<lambda>key. key @ ''='' @ the (map_of labels key)) (mset (map fst ?kept))"
    by (simp only: matchers_of_filter mset_map)
  with distinct_keys_filter [OF assms, of ?Q] show ?thesis by simp
qed

lemma sort_Strings_sorted: "sorted (sort_Strings xs)"
  by (simp add: sort_Strings_def)

lemma mset_sort_Strings: "mset (sort_Strings xs) = mset xs"
  by (simp add: sort_Strings_def)

lemma sort_Strings_mset_cong: "mset xs = mset ys \<Longrightarrow> sort_Strings xs = sort_Strings ys"
  unfolding sort_Strings_def
  by (rule properties_for_sort) simp_all

lemma matchers_agree:
  assumes "distinct (map fst labels)" and "distinct (map fst labels')"
    and "\<forall>key. \<not> (prefix ''__'' key \<and> suffix ''__'' key) \<longrightarrow>
           map_of labels' key = map_of labels key"
  shows "sort_Strings (matchers_of labels') = sort_Strings (matchers_of labels)"
proof -
  let ?Q = "\<lambda>key. \<not> (prefix ''__'' key \<and> suffix ''__'' key)"
  from assms(3) have keys: "{key \<in> dom (map_of labels'). ?Q key} = {key \<in> dom (map_of labels). ?Q key}"
    by (auto simp: dom_def)
  have "image_mset (\<lambda>key. key @ ''='' @ the (map_of labels' key))
          (mset_set {key \<in> dom (map_of labels). ?Q key})
      = image_mset (\<lambda>key. key @ ''='' @ the (map_of labels key))
          (mset_set {key \<in> dom (map_of labels). ?Q key})"
  proof (rule image_mset_cong)
    fix key
    assume "key \<in># mset_set {key \<in> dom (map_of labels). ?Q key}"
    moreover have "finite {key \<in> dom (map_of labels). ?Q key}"
      by (simp add: finite_dom_map_of)
    ultimately have "?Q key" by simp
    with assms(3) show "key @ ''='' @ the (map_of labels' key) = key @ ''='' @ the (map_of labels key)"
      by simp
  qed
  then have "mset (matchers_of labels') = mset (matchers_of labels)"
    by (simp only: mset_matchers_of [OF assms(1)] mset_matchers_of [OF assms(2)] keys)
  then show ?thesis by (rule sort_Strings_mset_cong)
qed

section \<open>The loop of the group extender\<close>

lemma extend_loop_Inr:
  "extend_loop externalURL alerts (Slice xs) = Inr r \<Longrightarrow>
     \<exists>ys. r = Slice (xs @ ys)
          \<and> list_all2 (\<lambda>alert e. extendAlert alert externalURL = Inr e) alerts ys"
proof (induction alerts arbitrary: xs)
  case Nil
  then show ?case by simp
next
  case (Cons alert rest)
  from Cons.prems obtain e where e: "extendAlert alert externalURL = Inr e"
    and loop: "extend_loop externalURL rest (Slice (xs @ [e])) = Inr r"
    by (auto simp: append_slice_def split: sum.splits)
  from Cons.IH [OF loop] obtain ys where
    "r = Slice ((xs @ [e]) @ ys)"
    "list_all2 (\<lambda>alert e. extendAlert alert externalURL = Inr e) rest ys"
    by blast
  with e show ?case
    by (intro exI [of _ "e # ys"]) simp
qed

lemma ExtendData_Alerts:
  assumes "ExtendData data = Inr d"
  shows "\<exists>ys. Alerts d = Slice ys
          \<and> list_all2 (\<lambda>alert e. extendAlert alert (ExternalURL data) = Inr e)
               (elems (Alerts data)) ys"
proof -
  from assms obtain r where
    "extend_loop (ExternalURL data) (elems (Alerts data)) (Slice []) = Inr r" "Alerts d = r"
    by (auto simp: ExtendData_def split: sum.splits)
  with extend_loop_Inr [of "ExternalURL data" "elems (Alerts data)" "[]" r]
  show ?thesis by auto
qed

section \<open>The examples, evaluated\<close>

lemma example_URL_nonempty: "example_URL \<noteq> []"
  by (simp add: example_URL_def)

lemma malformed_URL_nonempty: "malformed_URL \<noteq> []"
  by (simp add: malformed_URL_def)

lemma matchers_example:
  "sort_Strings (matchers_of (Labels example_alert)) = [''alertname=Test'', ''severity=high'']"
  "sort_Strings (matchers_of (Labels annotated_alert)) = [''alertname=Test'', ''severity=high'']"
  by (simp_all add: matchers_of_def example_alert_def annotated_alert_def go_defs)

lemma query_example:
  "url_QueryEscape (strings_Join [''alertname=Test'', ''severity=high''] '','')
     = ''alertname%3DTest%2Cseverity%3Dhigh''"
  by (simp add: go_defs)

lemma extendAlert_example_alert: "extendAlert example_alert example_URL = Inr example_extended"
  unfolding extendAlert_parsed [OF example_URL_nonempty url_Parse_example] matchers_example
    query_example
  by (simp add: example_alert_def example_extended_def removePrivateItems_def go_defs)

lemma extendAlert_annotated_alert:
  "extendAlert annotated_alert example_URL = Inr annotated_extended"
  unfolding extendAlert_parsed [OF example_URL_nonempty url_Parse_example] matchers_example
    query_example
  by (simp add: annotated_alert_def annotated_extended_def removePrivateItems_def go_defs)

lemma ExtendData_no_alerts:
  "ExtendData (example_group externalURL []) = Inr (example_extended_group externalURL [])"
  by (simp add: ExtendData_def example_group_def example_extended_group_def
      removePrivateItems_def go_defs)

lemma ExtendData_two_alerts:
  "ExtendData (example_group example_URL [example_alert, annotated_alert])
     = Inr (example_extended_group example_URL [example_extended, annotated_extended])"
  by (simp add: ExtendData_def example_group_def example_extended_group_def
      extendAlert_example_alert extendAlert_annotated_alert removePrivateItems_def go_defs)

lemma example_labels_agree:
  "\<forall>key. \<not> (prefix ''__'' key \<and> suffix ''__'' key) \<longrightarrow>
     map_of (Labels annotated_alert) key = map_of (Labels example_alert) key"
  by (auto simp: annotated_alert_def example_alert_def suffix_def)

section \<open>The closure of TmplText\<close>

lemma TmplText_Inr:
  assumes "TmplText tmpl promTmplData = Inr (renderFn, data)"
  shows "ExtendData promTmplData = Inr data"
    and "renderFn = (\<lambda>name tmplErr. if tmplErr \<noteq> None then ([], tmplErr) else tmpl name data)"
  using assms by (auto simp: TmplText_def split: sum.splits)

lemma call_all_set:
  assumes "\<And>name err. renderFn name (Some err) = ([], Some err)"
  shows "call_all renderFn names (Some err) = (replicate (length names) [], Some err)"
  by (induction names) (simp_all add: assms)

lemma snd_call_all_Cons:
  "snd (call_all renderFn (name # names) tmplErr)
     = snd (call_all renderFn names (snd (renderFn name tmplErr)))"
  by (simp add: case_prod_beta)

lemma call_all_unset:
  assumes "\<And>name err. renderFn name (Some err) = ([], Some err)"
    and "\<And>name. renderFn name None = tmpl name data"
  shows "snd (call_all renderFn names None)
     = (case find (\<lambda>name. snd (tmpl name data) \<noteq> None) names of
          None \<Rightarrow> None
        | Some name \<Rightarrow> snd (tmpl name data))"
proof (induction names)
  case Nil
  then show ?case by simp
next
  case (Cons name names)
  show ?case
  proof (cases "snd (tmpl name data)")
    case None
    with Cons show ?thesis
      by (simp add: snd_call_all_Cons assms(2) del: call_all.simps(2))
  next
    case (Some err)
    then show ?thesis
      using call_all_set [of renderFn names err, OF assms(1)]
      by (simp add: snd_call_all_Cons assms(2) del: call_all.simps(2))
  qed
qed

section \<open>The status filters on the store\<close>

lemma append_store_owned:
  assumes "owned n st s" and "append_store grow st s x = (st', s')"
  shows "owned n st' s'"
    and "\<forall>a < n. arrays st' a = arrays st a"
    and "take (len s') (arrays st' (array s')) = take (len s) (arrays st (array s)) @ [x]"
proof -
  show "owned n st' s'"
    using assms by (auto simp: owned_def append_store_def alloc_def Let_def split: if_splits)
  show "\<forall>a < n. arrays st' a = arrays st a"
    using assms by (auto simp: owned_def append_store_def alloc_def Let_def split: if_splits)
  show "take (len s') (arrays st' (array s')) = take (len s) (arrays st (array s)) @ [x]"
  proof (cases "len s < cap s")
    case True
    with assms have "len s < length (arrays st (array s))"
      by (simp add: owned_def)
    then have "take (Suc (len s)) ((arrays st (array s))[len s := x])
        = take (len s) (arrays st (array s)) @ [x]"
      by (simp add: take_Suc_conv_app_nth)
    with True assms(2) show ?thesis
      by (auto simp: append_store_def)
  next
    case False
    with assms have "len s \<le> length (arrays st (array s))"
      by (simp add: owned_def)
    with False assms(2) show ?thesis
      by (auto simp: append_store_def alloc_def Let_def min_def)
  qed
qed

lemma status_loop_owned:
  assumes "owned n st res" and "array as < n" and "\<forall>a < n. arrays st a = arrays st0 a"
    and "status_loop status grow as indices st res = (st', res')"
  shows "owned n st' res'
    \<and> (\<forall>a < n. arrays st' a = arrays st0 a)
    \<and> take (len res') (arrays st' (array res'))
        = take (len res) (arrays st (array res))
          @ filter (\<lambda>a. Status a = status) (map (\<lambda>i. arrays st0 (array as) ! i) indices)"
  using assms
proof (induction indices arbitrary: st res)
  case Nil
  then show ?case by simp
next
  case (Cons i rest)
  let ?a = "arrays st0 (array as) ! i"
  from Cons.prems(2,3) have read: "arrays st (array as) ! i = ?a"
    by simp
  show ?case
  proof (cases "Status ?a = status")
    case False
    with Cons.prems read have "status_loop status grow as rest st res = (st', res')"
      by simp
    from Cons.IH [OF Cons.prems(1,2,3) this] False show ?thesis
      by simp
  next
    case True
    obtain st1 res1 where app: "append_store grow st res ?a = (st1, res1)"
      by (cases "append_store grow st res ?a")
    with True Cons.prems(4) read
    have loop: "status_loop status grow as rest st1 res1 = (st', res')"
      by simp
    note step = append_store_owned [OF Cons.prems(1) app]
    from step(2) Cons.prems(3) have frame: "\<forall>a < n. arrays st1 a = arrays st0 a"
      by simp
    from Cons.IH [OF step(1) Cons.prems(2) frame loop] step(3) True show ?thesis
      by simp
  qed
qed

lemma map_nth_upt_take: "n \<le> length xs \<Longrightarrow> map (\<lambda>i. xs ! i) [0..<n] = take n xs"
  by (simp add: list_eq_iff_nth_eq)

lemma status_loop_result:
  assumes "valid st as"
    and "(let (st0, res) = empty_literal st in status_loop status grow as [0..<len as] st0 res)
           = (st', res')"
  shows "view st' res' = Slice (filter (\<lambda>a. Status a = status) (elems (view st as)))
    \<and> (\<forall>a < brk st. arrays st' a = arrays st a)
    \<and> view st' as = view st as"
proof -
  let ?st0 = "st\<lparr>arrays := (arrays st)(brk st := []), brk := Suc (brk st)\<rparr>"
  let ?res = "\<lparr>array = brk st, len = 0, cap = 0\<rparr>"
  from assms(2) have loop: "status_loop status grow as [0..<len as] ?st0 ?res = (st', res')"
    by (simp add: empty_literal_def alloc_def)
  have "owned (brk st) ?st0 ?res"
    by (simp add: owned_def)
  moreover from assms(1) have "array as < brk st"
    by (simp add: valid_def)
  moreover have "\<forall>a < brk st. arrays ?st0 a = arrays st a"
    by simp
  ultimately have r: "owned (brk st) st' res'"
    "\<forall>a < brk st. arrays st' a = arrays st a"
    "take (len res') (arrays st' (array res'))
       = filter (\<lambda>a. Status a = status) (map (\<lambda>i. arrays st (array as) ! i) [0..<len as])"
    using status_loop_owned [OF _ _ _ loop, of "brk st" st] by simp_all
  from assms(1) have "map (\<lambda>i. arrays st (array as) ! i) [0..<len as] = elems (view st as)"
    by (auto simp: valid_def view_def map_nth_upt_take)
  with r(3) have "take (len res') (arrays st' (array res'))
      = filter (\<lambda>a. Status a = status) (elems (view st as))"
    by simp
  moreover from r(1) assms(1) have "array res' \<noteq> 0"
    by (auto simp: owned_def valid_def)
  ultimately have "view st' res' = Slice (filter (\<lambda>a. Status a = status) (elems (view st as)))"
    by (simp add: view_def)
  moreover from r(2) assms(1) have "view st' as = view st as"
    by (simp add: view_def valid_def)
  ultimately show ?thesis
    using r(2) by simp
qed

section \<open>The claims\<close>

text \<open>
  C1. In the result of the alert extender, and in the common labels and the common
  annotations of the result of the group extender, a key that begins and ends with a
  double underscore has no entry, and every other key has the value it had in the input.
\<close>

theorem private_items_removed:
  "(extendAlert alert externalURL = Inr e \<longrightarrow>
      (\<forall>key. map_of (Labels e) key
               = (if prefix ''__'' key \<and> suffix ''__'' key then None
                  else map_of (Labels alert) key))
      \<and> (\<forall>key. map_of (Annotations e) key
                 = (if prefix ''__'' key \<and> suffix ''__'' key then None
                    else map_of (Annotations alert) key)))
   \<and> (ExtendData data = Inr d \<longrightarrow>
        (\<forall>key. map_of (CommonLabels d) key
                 = (if prefix ''__'' key \<and> suffix ''__'' key then None
                    else map_of (CommonLabels data) key))
        \<and> (\<forall>key. map_of (CommonAnnotations d) key
                   = (if prefix ''__'' key \<and> suffix ''__'' key then None
                      else map_of (CommonAnnotations data) key)))"
  by (auto simp: extendAlert_Labels extendAlert_Annotations map_of_removePrivateItems
      dest!: ExtendData_common)

theorem private_items_removed_witness:
  "extendAlert example_alert example_URL = Inr example_extended
   \<and> ExtendData (example_group example_URL []) = Inr (example_extended_group example_URL [])
   \<and> (\<forall>key. map_of (Labels example_extended) key
              = (if prefix ''__'' key \<and> suffix ''__'' key then None
                 else map_of (Labels example_alert) key))
   \<and> (\<forall>key. map_of (Annotations example_extended) key
              = (if prefix ''__'' key \<and> suffix ''__'' key then None
                 else map_of (Annotations example_alert) key))
   \<and> (\<forall>key. map_of (CommonLabels (example_extended_group example_URL [])) key
              = (if prefix ''__'' key \<and> suffix ''__'' key then None
                 else map_of (CommonLabels (example_group example_URL [])) key))
   \<and> (\<forall>key. map_of (CommonAnnotations (example_extended_group example_URL [])) key
              = (if prefix ''__'' key \<and> suffix ''__'' key then None
                 else map_of (CommonAnnotations (example_group example_URL [])) key))
   \<and> map_of (Labels example_extended) ''__dashboardUid__'' = None
   \<and> map_of (Labels example_extended) ''severity'' = Some ''high''"
  using private_items_removed [of example_alert example_URL example_extended
      "example_group example_URL []" "example_extended_group example_URL []"]
    extendAlert_example_alert ExtendData_no_alerts [of example_URL]
  by (simp add: example_extended_def)

text \<open>
  C2. For a non-empty external URL that parses, the silence URL is the parsed URL with the
  path \<open>path.Join(base path, "/alerting/silence/new")\<close> and the query
  \<open>alertmanager=grafana&matchers=\<close> followed by the query-escaped, comma-joined matchers.
  The matchers are sorted and are, each once, the strings \<open>key=value\<close> of the labels whose
  key is not private. Every alert whose labels agree with this alert's on the keys that
  are not private gets the same silence URL, in whatever order its labels are visited.
\<close>

theorem silence_URL_canonical:
  assumes "externalURL \<noteq> []" and "url_Parse externalURL = Inr u"
    and "distinct (map fst (Labels alert))"
  shows "\<exists>e matchers.
      extendAlert alert externalURL = Inr e
      \<and> SilenceURL e =
          url_String (u\<lparr>Path := path_Join [Path u, ''/alerting/silence/new''],
                        RawQuery := ''alertmanager=grafana&matchers=''
                                    @ url_QueryEscape (strings_Join matchers '','')\<rparr>)
      \<and> sorted matchers
      \<and> mset matchers =
          image_mset (\<lambda>key. key @ ''='' @ the (map_of (Labels alert) key))
            (mset_set {key \<in> dom (map_of (Labels alert)).
                         \<not> (prefix ''__'' key \<and> suffix ''__'' key)})
      \<and> (\<forall>alert' e'.
            distinct (map fst (Labels alert'))
            \<and> (\<forall>key. \<not> (prefix ''__'' key \<and> suffix ''__'' key) \<longrightarrow>
                   map_of (Labels alert') key = map_of (Labels alert) key)
            \<and> extendAlert alert' externalURL = Inr e'
            \<longrightarrow> SilenceURL e' = SilenceURL e)"
proof -
  let ?matchers = "sort_Strings (matchers_of (Labels alert))"
  let ?silence = "\<lambda>matchers.
      url_String (u\<lparr>Path := path_Join [Path u, ''/alerting/silence/new''],
                    RawQuery := ''alertmanager=grafana&matchers=''
                                @ url_QueryEscape (strings_Join matchers '','')\<rparr>)"
  obtain e where e: "extendAlert alert externalURL = Inr e"
    and silence: "SilenceURL e = ?silence ?matchers"
    by (simp add: extendAlert_parsed [OF assms(1,2)])
  have "sorted ?matchers"
    by (rule sort_Strings_sorted)
  moreover have "mset ?matchers =
      image_mset (\<lambda>key. key @ ''='' @ the (map_of (Labels alert) key))
        (mset_set {key \<in> dom (map_of (Labels alert)).
                     \<not> (prefix ''__'' key \<and> suffix ''__'' key)})"
    by (simp only: mset_sort_Strings mset_matchers_of [OF assms(3)])
  moreover have "SilenceURL e' = SilenceURL e"
    if "distinct (map fst (Labels alert'))"
      and "\<forall>key. \<not> (prefix ''__'' key \<and> suffix ''__'' key) \<longrightarrow>
             map_of (Labels alert') key = map_of (Labels alert) key"
      and "extendAlert alert' externalURL = Inr e'" for alert' e'
  proof -
    from that(3) have "SilenceURL e' = ?silence (sort_Strings (matchers_of (Labels alert')))"
      by (auto simp: extendAlert_parsed [OF assms(1,2)])
    with matchers_agree [OF assms(3) that(1,2)] silence show ?thesis
      by simp
  qed
  ultimately show ?thesis
    using e silence by blast
qed

theorem silence_URL_canonical_witness:
  "example_URL \<noteq> []
   \<and> url_Parse example_URL
       = Inr (new_URL\<lparr>Scheme := ''https'', Host := ''example.com'', Path := ''/''\<rparr>)
   \<and> distinct (map fst (Labels example_alert))
   \<and> distinct (map fst (Labels annotated_alert))
   \<and> Labels annotated_alert \<noteq> Labels example_alert
   \<and> extendAlert example_alert example_URL = Inr example_extended
   \<and> extendAlert annotated_alert example_URL = Inr annotated_extended
   \<and> SilenceURL annotated_extended = SilenceURL example_extended
   \<and> SilenceURL example_extended =
       ''https://example.com/alerting/silence/new?alertmanager=grafana&matchers=alertname%3DTest%2Cseverity%3Dhigh''"
proof -
  have distinct: "distinct (map fst (Labels example_alert))"
    "distinct (map fst (Labels annotated_alert))"
    by (simp_all add: example_alert_def annotated_alert_def)
  from silence_URL_canonical [OF example_URL_nonempty url_Parse_example distinct(1)]
  obtain e where e: "extendAlert example_alert example_URL = Inr e"
    and same: "\<forall>alert' e'.
        distinct (map fst (Labels alert'))
        \<and> (\<forall>key. \<not> (prefix ''__'' key \<and> suffix ''__'' key) \<longrightarrow>
               map_of (Labels alert') key = map_of (Labels example_alert) key)
        \<and> extendAlert alert' example_URL = Inr e'
        \<longrightarrow> SilenceURL e' = SilenceURL e"
    by blast
  from e have "e = example_extended"
    by (simp add: extendAlert_example_alert)
  with same distinct(2) example_labels_agree extendAlert_annotated_alert
  have "SilenceURL annotated_extended = SilenceURL example_extended"
    by blast
  moreover have "Labels annotated_alert \<noteq> Labels example_alert"
    by (simp add: example_alert_def annotated_alert_def)
  moreover have "SilenceURL example_extended =
      ''https://example.com/alerting/silence/new?alertmanager=grafana&matchers=alertname%3DTest%2Cseverity%3Dhigh''"
    by (simp add: example_extended_def)
  ultimately show ?thesis
    using example_URL_nonempty url_Parse_example distinct extendAlert_example_alert
      extendAlert_annotated_alert
    by simp
qed

text \<open>
  C3, as the code has it. The alert extender reads the dashboard uid and the panel id
  from the annotations. For the example's alert, whose dashboard uid is a label, on
  \<open>https://example.com/\<close> it returns an empty dashboard URL and an empty panel URL, the
  silence URL of the example, and the labels \<open>alertname\<close> and \<open>severity\<close> only. With the
  dashboard uid among the annotations it returns the dashboard URL, the panel URL and the
  silence URL of the example, and the same two labels.
\<close>

theorem example_alert_extended:
  "extendAlert example_alert example_URL =
     Inr \<lparr>Status = ''firing'',
          Labels = [(''alertname'', ''Test''), (''severity'', ''high'')],
          Annotations = [], StartsAt = 0, EndsAt = 0, GeneratorURL = [], Fingerprint = [],
          SilenceURL = ''https://example.com/alerting/silence/new?alertmanager=grafana&matchers=alertname%3DTest%2Cseverity%3Dhigh'',
          DashboardURL = [], PanelURL = []\<rparr>
   \<and> extendAlert annotated_alert example_URL =
     Inr \<lparr>Status = ''firing'',
          Labels = [(''severity'', ''high''), (''alertname'', ''Test'')],
          Annotations = [], StartsAt = 0, EndsAt = 0, GeneratorURL = [], Fingerprint = [],
          SilenceURL = ''https://example.com/alerting/silence/new?alertmanager=grafana&matchers=alertname%3DTest%2Cseverity%3Dhigh'',
          DashboardURL = ''https://example.com/d/abc'',
          PanelURL = ''https://example.com/d/abc?viewPanel=7''\<rparr>"
  by (simp add: extendAlert_example_alert extendAlert_annotated_alert
      example_extended_def annotated_extended_def)

text \<open>
  C3 as stated fails: for the example's alert the dashboard URL and the panel URL are
  empty, not \<open>https://example.com/d/abc\<close> and \<open>https://example.com/d/abc?viewPanel=7\<close>.
\<close>

theorem example_alert_dashboard_counterexample:
  "extendAlert example_alert example_URL = Inr example_extended
   \<and> example_URL = ''https://example.com/''
   \<and> map_of (Labels example_alert) ''__dashboardUid__'' = Some ''abc''
   \<and> map_of (Annotations example_alert) ''__panelId__'' = Some ''7''
   \<and> DashboardURL example_extended \<noteq> ''https://example.com/d/abc''
   \<and> PanelURL example_extended \<noteq> ''https://example.com/d/abc?viewPanel=7''"
  using extendAlert_example_alert
  by (simp add: example_extended_def example_alert_def example_URL_def)

text \<open>
  C4, as the code has it. The external URL is parsed by the alert extender only. When the
  group has at least one alert and its external URL fails to parse, the group extender
  returns the error that wraps the parse error (\<open>InvalidConfigURL\<close>), not a group: the
  first alert fails and nothing of the group is returned.
\<close>

theorem malformed_URL_aborts:
  assumes "elems (Alerts data) \<noteq> []" and "url_Parse (ExternalURL data) = Inl err"
  shows "ExtendData data = Inl (FailedToParseExternalURL err)"
proof -
  from assms(2) have nonempty: "ExternalURL data \<noteq> []"
    using url_Parse_empty by auto
  from assms(1) obtain alert rest where "elems (Alerts data) = alert # rest"
    by (cases "elems (Alerts data)") auto
  then show ?thesis
    by (simp add: ExtendData_def extendAlert_error [OF nonempty assms(2)])
qed

theorem malformed_URL_aborts_witness:
  "elems (Alerts (example_group malformed_URL [example_alert, annotated_alert])) \<noteq> []
   \<and> url_Parse (ExternalURL (example_group malformed_URL [example_alert, annotated_alert]))
       = Inl (Error ''parse'' malformed_URL InvalidControlCharacter)
   \<and> ExtendData (example_group malformed_URL [example_alert, annotated_alert])
       = Inl (FailedToParseExternalURL (Error ''parse'' malformed_URL InvalidControlCharacter))"
  using malformed_URL_aborts [of "example_group malformed_URL [example_alert, annotated_alert]"
      "Error ''parse'' malformed_URL InvalidControlCharacter"]
    url_Parse_malformed
  by (simp add: example_group_def)

text \<open>
  C4 as stated fails for a group without alerts: its malformed external URL is never
  parsed and the group extender returns a group.
\<close>

theorem malformed_URL_no_alerts_counterexample:
  "url_Parse malformed_URL = Inl (Error ''parse'' malformed_URL InvalidControlCharacter)
   \<and> ExternalURL (example_group malformed_URL []) = malformed_URL
   \<and> ExtendData (example_group malformed_URL []) = Inr (example_extended_group malformed_URL [])"
  by (simp add: url_Parse_malformed ExtendData_no_alerts) (simp add: example_group_def)

text \<open>
  C5. With an empty external URL the alert extender succeeds, and the silence URL, the
  dashboard URL and the panel URL of its result are empty.
\<close>

theorem empty_external_URL:
  "\<exists>e. extendAlert alert [] = Inr e
       \<and> SilenceURL e = [] \<and> DashboardURL e = [] \<and> PanelURL e = []"
  by (simp add: extendAlert_empty)

theorem empty_external_URL_witness:
  "\<exists>e. extendAlert annotated_alert [] = Inr e
       \<and> map_of (Annotations annotated_alert) ''__dashboardUid__'' = Some ''abc''
       \<and> SilenceURL e = [] \<and> DashboardURL e = [] \<and> PanelURL e = []"
  using empty_external_URL [of annotated_alert] by (simp add: annotated_alert_def)

text \<open>
  C6. In a result of the alert extender, a panel URL that is not empty comes with a
  dashboard URL that is not empty.
\<close>

theorem panel_needs_dashboard:
  assumes "extendAlert alert externalURL = Inr e" and "PanelURL e \<noteq> []"
  shows "DashboardURL e \<noteq> []"
proof -
  from extendAlert_PanelURL [OF assms]
  have nonempty: "externalURL \<noteq> []"
    and uid: "KV_index (Annotations alert) ''__dashboardUid__'' \<noteq> []"
    by simp_all
  from assms(1) nonempty obtain u where u: "url_Parse externalURL = Inr u"
    by (cases "url_Parse externalURL") (auto simp: extendAlert_error)
  let ?ud = "u\<lparr>Path := path_Join [Path u, ''/d/'', KV_index (Annotations alert) ''__dashboardUid__'']\<rparr>"
  have "Path ?ud \<noteq> []"
    by (simp add: path_Join_nonempty)
  then have "url_String ?ud \<noteq> []"
    by (rule url_String_nonempty)
  moreover from assms(1) uid have "DashboardURL e = url_String ?ud"
    by (auto simp: extendAlert_parsed [OF nonempty u])
  ultimately show ?thesis by simp
qed

theorem panel_needs_dashboard_witness:
  "extendAlert annotated_alert example_URL = Inr annotated_extended
   \<and> PanelURL annotated_extended = ''https://example.com/d/abc?viewPanel=7''
   \<and> PanelURL annotated_extended \<noteq> []
   \<and> DashboardURL annotated_extended \<noteq> []"
proof -
  have panel: "PanelURL annotated_extended = ''https://example.com/d/abc?viewPanel=7''"
    by (simp add: annotated_extended_def)
  then have "PanelURL annotated_extended \<noteq> []" by simp
  with panel panel_needs_dashboard [OF extendAlert_annotated_alert this]
    extendAlert_annotated_alert
  show ?thesis by simp
qed

text \<open>
  C7. When the group extender succeeds, the alerts of its result are a slice that is not
  \<open>nil\<close> and has the length of the input's alerts, and its element at each index is the
  alert extender's result for the input's alert at that index; for an input without
  alerts it is the empty slice.
\<close>

theorem alerts_extended_in_order:
  assumes "ExtendData data = Inr d"
  shows "Alerts d \<noteq> nil_slice
    \<and> length (elems (Alerts d)) = length (elems (Alerts data))
    \<and> (\<forall>i < length (elems (Alerts data)).
          extendAlert (elems (Alerts data) ! i) (ExternalURL data) = Inr (elems (Alerts d) ! i))
    \<and> (elems (Alerts data) = [] \<longrightarrow> Alerts d = Slice [])"
proof -
  from ExtendData_Alerts [OF assms] obtain ys where ys: "Alerts d = Slice ys"
    and all: "list_all2 (\<lambda>alert e. extendAlert alert (ExternalURL data) = Inr e)
                (elems (Alerts data)) ys"
    by blast
  from all have len: "length ys = length (elems (Alerts data))"
    by (simp add: list_all2_lengthD)
  from all have "\<forall>i < length (elems (Alerts data)).
      extendAlert (elems (Alerts data) ! i) (ExternalURL data) = Inr (ys ! i)"
    by (simp add: list_all2_conv_all_nth)
  with ys len show ?thesis by auto
qed

theorem alerts_extended_in_order_witness:
  "ExtendData (example_group example_URL [example_alert, annotated_alert])
     = Inr (example_extended_group example_URL [example_extended, annotated_extended])
   \<and> Alerts (example_extended_group example_URL [example_extended, annotated_extended])
       = Slice [example_extended, annotated_extended]
   \<and> extendAlert example_alert example_URL = Inr example_extended
   \<and> extendAlert annotated_alert example_URL = Inr annotated_extended
   \<and> example_extended \<noteq> annotated_extended"
proof -
  let ?data = "example_group example_URL [example_alert, annotated_alert]"
  let ?d = "example_extended_group example_URL [example_extended, annotated_extended]"
  have in_order: "\<forall>i < length (elems (Alerts ?data)).
      extendAlert (elems (Alerts ?data) ! i) (ExternalURL ?data) = Inr (elems (Alerts ?d) ! i)"
    using alerts_extended_in_order [OF ExtendData_two_alerts] by blast
  have data: "elems (Alerts ?data) = [example_alert, annotated_alert]"
    "ExternalURL ?data = example_URL"
    by (simp_all add: example_group_def)
  have d: "Alerts ?d = Slice [example_extended, annotated_extended]"
    by (simp add: example_extended_group_def)
  from in_order [rule_format, of 0] in_order [rule_format, of 1]
  have "extendAlert example_alert example_URL = Inr example_extended"
    "extendAlert annotated_alert example_URL = Inr annotated_extended"
    by (simp_all add: data d)
  moreover have "example_extended \<noteq> annotated_extended"
    by (simp add: example_extended_def annotated_extended_def)
  ultimately show ?thesis
    using ExtendData_two_alerts d by simp
qed

text \<open>
  C8. The closure \<open>TmplText\<close> returns: called with \<open>tmplErr\<close> set, it returns the empty
  string and leaves \<open>tmplErr\<close> as it is; called with \<open>tmplErr\<close> unset, it returns what the
  template's \<open>ExecuteTextString\<close> returns for the name and the extended data, and stores
  the error of that call in \<open>tmplErr\<close>. So over a sequence of calls \<open>tmplErr\<close>, once set,
  keeps its value, and ends as the error of the first call that failed.
\<close>

theorem render_closure_first_error_wins:
  assumes "TmplText tmpl promTmplData = Inr (renderFn, data)"
  shows "ExtendData promTmplData = Inr data
    \<and> (\<forall>name err. renderFn name (Some err) = ([], Some err))
    \<and> (\<forall>name. renderFn name None = tmpl name data)
    \<and> (\<forall>names err. call_all renderFn names (Some err) = (replicate (length names) [], Some err))
    \<and> (\<forall>names. snd (call_all renderFn names None)
          = (case find (\<lambda>name. snd (tmpl name data) \<noteq> None) names of
               None \<Rightarrow> None
             | Some name \<Rightarrow> snd (tmpl name data)))"
proof -
  note r = TmplText_Inr [OF assms]
  have set: "renderFn name (Some err) = ([], Some err)" for name err
    by (simp add: r(2))
  have unset: "renderFn name None = tmpl name data" for name
    by (simp add: r(2))
  show ?thesis
    using r(1) set unset call_all_set [of renderFn, OF set]
      call_all_unset [of renderFn tmpl data, OF set unset]
    by simp
qed

theorem render_closure_first_error_wins_witness:
  "\<exists>renderFn.
     TmplText example_tmpl (example_group example_URL [])
       = Inr (renderFn, example_extended_group example_URL [])
     \<and> renderFn ''subject'' None = (''subject for email'', None)
     \<and> renderFn ''broken'' None = (''partial'', Some ''template: execution failed'')
     \<and> renderFn ''subject'' (Some ''template: execution failed'')
         = ([], Some ''template: execution failed'')
     \<and> call_all renderFn [''subject'', ''broken'', ''missing'', ''body''] None
         = ([''subject for email'', ''partial'', [], []], Some ''template: execution failed'')"
proof -
  let ?data = "example_extended_group example_URL []"
  obtain renderFn where t: "TmplText example_tmpl (example_group example_URL [])
        = Inr (renderFn, ?data)"
    by (simp add: TmplText_def ExtendData_no_alerts)
  from render_closure_first_error_wins [OF t]
  have set: "\<And>name err. renderFn name (Some err) = ([], Some err)"
    and unset: "\<And>name. renderFn name None = example_tmpl name ?data"
    by blast+
  have "Receiver ?data = ''email''"
    by (simp add: example_extended_group_def)
  then have "call_all renderFn [''subject'', ''broken'', ''missing'', ''body''] None
         = ([''subject for email'', ''partial'', [], []], Some ''template: execution failed'')"
    "renderFn ''subject'' None = (''subject for email'', None)"
    "renderFn ''broken'' None = (''partial'', Some ''template: execution failed'')"
    by (simp_all add: set unset example_tmpl_def)
  with t set show ?thesis by blast
qed

text \<open>
  C9. \<open>Firing\<close> returns a slice that is not \<open>nil\<close> and holds, in their order, exactly the
  alerts of the given slice whose status is \<open>firing\<close>, and \<open>Resolved\<close> the same for the
  status \<open>resolved\<close> (so an empty slice that is not \<open>nil\<close> when no alert matches). Neither
  writes to an array that was allocated before the call: the given slice holds the same
  alerts afterwards.
\<close>

theorem status_filters:
  assumes "valid st as"
  shows "(case Firing grow st as of (st', res) \<Rightarrow>
            view st' res = Slice (filter (\<lambda>a. Status a = ''firing'') (elems (view st as)))
            \<and> (\<forall>a < brk st. arrays st' a = arrays st a)
            \<and> view st' as = view st as)
    \<and> (case Resolved grow st as of (st', res) \<Rightarrow>
            view st' res = Slice (filter (\<lambda>a. Status a = ''resolved'') (elems (view st as)))
            \<and> (\<forall>a < brk st. arrays st' a = arrays st a)
            \<and> view st' as = view st as)"
proof -
  obtain st1 res1 where f: "Firing grow st as = (st1, res1)"
    by (cases "Firing grow st as")
  obtain st2 res2 where r: "Resolved grow st as = (st2, res2)"
    by (cases "Resolved grow st as")
  from status_loop_result [OF assms f [unfolded Firing_def]]
    status_loop_result [OF assms r [unfolded Resolved_def]] f r
  show ?thesis by simp
qed

theorem status_filters_witness:
  "valid example_store example_alerts
   \<and> view example_store example_alerts
       = Slice [example_extended, resolved_extended, annotated_extended]
   \<and> view (fst (Firing (\<lambda>c. 2 * c + 2) example_store example_alerts))
            (snd (Firing (\<lambda>c. 2 * c + 2) example_store example_alerts))
       = Slice [example_extended, annotated_extended]
   \<and> view (fst (Resolved (\<lambda>c. 2 * c + 2) example_store example_alerts))
            (snd (Resolved (\<lambda>c. 2 * c + 2) example_store example_alerts))
       = Slice [resolved_extended]
   \<and> view (fst (Firing (\<lambda>c. 2 * c + 2) example_store example_alerts)) example_alerts
       = Slice [example_extended, resolved_extended, annotated_extended]
   \<and> view (fst (Resolved (\<lambda>c. 2 * c + 2) example_store example_alerts)) example_alerts
       = Slice [example_extended, resolved_extended, annotated_extended]
   \<and> valid example_store firing_alerts
   \<and> view example_store firing_alerts = Slice [example_extended]
   \<and> view (fst (Resolved (\<lambda>c. 2 * c + 2) example_store firing_alerts))
            (snd (Resolved (\<lambda>c. 2 * c + 2) example_store firing_alerts))
       = Slice []"
proof -
  have v: "valid example_store example_alerts" "valid example_store firing_alerts"
    by (simp_all add: valid_def example_store_def example_alerts_def firing_alerts_def)
  have given: "view example_store example_alerts
      = Slice [example_extended, resolved_extended, annotated_extended]"
    "view example_store firing_alerts = Slice [example_extended]"
    by (simp_all add: view_def example_store_def example_alerts_def firing_alerts_def)
  have status: "Status example_extended = ''firing''" "Status resolved_extended = ''resolved''"
    "Status annotated_extended = ''firing''"
    by (simp_all add: example_extended_def resolved_extended_def annotated_extended_def)
  from status_filters [OF v(1), of "\<lambda>c. 2 * c + 2"]
    status_filters [OF v(2), of "\<lambda>c. 2 * c + 2"]
  show ?thesis
    by (simp add: case_prod_beta given status v)
qed

text \<open>
  C10. For a group without alerts the group extender returns a group, whatever the
  external URL is, a malformed one included: the alert extender, which parses it, is
  never called.
\<close>

theorem no_alerts_no_parse:
  assumes "elems (Alerts data) = []"
  shows "ExtendData data =
     Inr \<lparr>Receiver = Receiver data, Status' = Status' data, Alerts = Slice [],
          GroupLabels = GroupLabels data,
          CommonLabels = removePrivateItems (CommonLabels data),
          CommonAnnotations = removePrivateItems (CommonAnnotations data),
          ExternalURL = ExternalURL data\<rparr>"
  using assms by (simp add: ExtendData_def)

theorem no_alerts_no_parse_witness:
  "elems (Alerts (example_group malformed_URL [])) = []
   \<and> url_Parse (ExternalURL (example_group malformed_URL []))
       = Inl (Error ''parse'' malformed_URL InvalidControlCharacter)
   \<and> ExtendData (example_group malformed_URL []) =
       Inr \<lparr>Receiver = ''email'', Status' = ''firing'', Alerts = Slice [],
            GroupLabels = [(''alertname'', ''Test'')],
            CommonLabels = [(''alertname'', ''Test'')],
            CommonAnnotations = [(''summary'', ''s'')],
            ExternalURL = malformed_URL\<rparr>"
  using no_alerts_no_parse [of "example_group malformed_URL []"] url_Parse_malformed
  by (simp add: example_group_def removePrivateItems_def go_defs)

end
